theory Spec2Isabelle
  imports Complex_Main
begin

section \<open>JavaScript numbers\<close>

text \<open>
  A JavaScript \<^verbatim>\<open>number\<close> is a finite value, one of the two infinities, or NaN.
  Arithmetic on finite values is exact here: the rounding and the overflow of binary64 are
  outside this model, and zero carries no sign (\<open>Fin 0\<close> divides like \<^verbatim>\<open>+0\<close>; a record
  cannot carry \<^verbatim>\<open>-0\<close>). The operations below follow the special-value rules of \<^verbatim>\<open>-\<close>,
  \<^verbatim>\<open>*\<close>, \<^verbatim>\<open>/\<close>, \<^verbatim>\<open>>=\<close>, \<^verbatim>\<open>===\<close> and \<^verbatim>\<open>Math.max\<close>.

  Two consequences for what is stated below. Where a theorem about every record divides a
  non-zero number by a zero field, it asserts only that the value is an infinity, not its
  sign (the sign is given at a concrete record whose field is \<^verbatim>\<open>0\<close>). Where the finiteness
  of a rate is asserted, it comes with a bound by an operand (the rate lies between 0 and
  the byte counter of its record), which binary64 arithmetic keeps as well.
\<close>

datatype jsnum = Fin real | PInf | NInf | NaN

fun js_sub :: "jsnum \<Rightarrow> jsnum \<Rightarrow> jsnum" where
  "js_sub NaN y = NaN"
| "js_sub x NaN = NaN"
| "js_sub (Fin a) (Fin b) = Fin (a - b)"
| "js_sub (Fin a) PInf = NInf"
| "js_sub (Fin a) NInf = PInf"
| "js_sub PInf PInf = NaN"
| "js_sub PInf y = PInf"
| "js_sub NInf NInf = NaN"
| "js_sub NInf y = NInf"

fun js_mul :: "jsnum \<Rightarrow> jsnum \<Rightarrow> jsnum" where
  "js_mul NaN y = NaN"
| "js_mul x NaN = NaN"
| "js_mul (Fin a) (Fin b) = Fin (a * b)"
| "js_mul (Fin a) PInf = (if a = 0 then NaN else if 0 < a then PInf else NInf)"
| "js_mul (Fin a) NInf = (if a = 0 then NaN else if 0 < a then NInf else PInf)"
| "js_mul PInf (Fin b) = (if b = 0 then NaN else if 0 < b then PInf else NInf)"
| "js_mul NInf (Fin b) = (if b = 0 then NaN else if 0 < b then NInf else PInf)"
| "js_mul PInf PInf = PInf"
| "js_mul PInf NInf = NInf"
| "js_mul NInf PInf = NInf"
| "js_mul NInf NInf = PInf"

fun js_div :: "jsnum \<Rightarrow> jsnum \<Rightarrow> jsnum" where
  "js_div NaN y = NaN"
| "js_div x NaN = NaN"
| "js_div (Fin a) (Fin b) =
     (if b \<noteq> 0 then Fin (a / b)
      else if a = 0 then NaN
      else if 0 < a then PInf else NInf)"
| "js_div (Fin a) y = Fin 0"
| "js_div PInf (Fin b) = (if 0 \<le> b then PInf else NInf)"
| "js_div NInf (Fin b) = (if 0 \<le> b then NInf else PInf)"
| "js_div x y = NaN"

text \<open>\<^verbatim>\<open>a >= b\<close>: false as soon as one side is NaN.\<close>

fun js_ge :: "jsnum \<Rightarrow> jsnum \<Rightarrow> bool" where
  "js_ge NaN y = False"
| "js_ge x NaN = False"
| "js_ge PInf y = True"
| "js_ge x NInf = True"
| "js_ge (Fin a) (Fin b) = (b \<le> a)"
| "js_ge x y = False"

text \<open>\<^verbatim>\<open>a === b\<close> on numbers: NaN equals nothing, itself included.\<close>

fun js_strict_eq :: "jsnum \<Rightarrow> jsnum \<Rightarrow> bool" where
  "js_strict_eq NaN y = False"
| "js_strict_eq x NaN = False"
| "js_strict_eq x y = (x = y)"


text \<open>
  \<^verbatim>\<open>Math.max(...xs)\<close>: \<^verbatim>\<open>-Infinity\<close> without arguments, NaN when an argument is NaN,
  the largest argument otherwise.
\<close>

definition js_max2 :: "jsnum \<Rightarrow> jsnum \<Rightarrow> jsnum" where
  "js_max2 a b = (if a = NaN \<or> b = NaN then NaN else if js_ge a b then a else b)"

definition math_max :: "jsnum list \<Rightarrow> jsnum" where
  "math_max xs = foldl js_max2 NInf xs"

section \<open>Data model\<close>

datatype StatType = Cpu | Memory | Disk | NetworkIngress | NetworkEgress | LoadAverage

text \<open>The string each member of the union type \<^verbatim>\<open>StatType\<close> stands for.\<close>

fun type_label :: "StatType \<Rightarrow> string" where
  "type_label Cpu = ''Cpu''"
| "type_label Memory = ''Memory''"
| "type_label Disk = ''Disk''"
| "type_label NetworkIngress = ''Network Ingress''"
| "type_label NetworkEgress = ''Network Egress''"
| "type_label LoadAverage = ''Load Average''"

text \<open>
  Modelled from the spec: \<^verbatim>\<open>Types.SystemStatsRecord\<close> and \<^verbatim>\<open>Types.SystemLoadAverage\<close>
  are declared in the client library \<^verbatim>\<open>komodo_client\<close>, not in this source file. The
  fields are the ones the chart reads, typed as the data model of the specification gives
  them. The records are decoded from JSON, so every number in them is finite: the numeric
  fields are reals and the millisecond timestamp is an integer. A field that may be missing
  is an option.
\<close>

record SystemLoadAverage =
  one :: real
  five :: real
  fifteen :: real

record SystemStatsRecord =
  ts :: int
  cpu_perc :: "real option"
  load_average :: "SystemLoadAverage option"
  mem_used_gb :: real
  mem_total_gb :: real
  disk_used_gb :: real
  disk_total_gb :: real
  network_ingress_bytes :: "real option"
  network_egress_bytes :: "real option"

text \<open>The response of \<^verbatim>\<open>GetHistoricalServerStats\<close>, newest record first.\<close>

record GetHistoricalServerStatsResponse =
  stats :: "SystemStatsRecord list"

record StatDatapoint =
  dp_date :: int
  dp_value :: jsnum

record Series =
  s_label :: string
  s_data :: "StatDatapoint list"

section \<open>seriesData\<close>

text \<open>\<^verbatim>\<open>x || 0\<close> on an optional number: a missing value and zero both give 0.\<close>

definition or_zero :: "real option \<Rightarrow> jsnum" where
  "or_zero x = (case x of None \<Rightarrow> Fin 0 | Some v \<Rightarrow> if v = 0 then Fin 0 else Fin v)"

text \<open>\<^verbatim>\<open>x ?? 0\<close> on an optional number.\<close>

definition nullish_zero :: "real option \<Rightarrow> jsnum" where
  "nullish_zero x = (case x of None \<Rightarrow> Fin 0 | Some v \<Rightarrow> Fin v)"

definition getStat :: "SystemStatsRecord \<Rightarrow> StatType \<Rightarrow> jsnum" where
  "getStat stat type =
     (if type = Cpu then or_zero (cpu_perc stat)
      else if type = Memory then
        js_div (js_mul (Fin 100) (Fin (mem_used_gb stat))) (Fin (mem_total_gb stat))
      else if type = Disk then
        js_div (js_mul (Fin 100) (Fin (disk_used_gb stat))) (Fin (disk_total_gb stat))
      else if type = NetworkIngress then or_zero (network_ingress_bytes stat)
      else if type = NetworkEgress then or_zero (network_egress_bytes stat)
      else Fin 0)"

definition getBytes :: "StatType \<Rightarrow> SystemStatsRecord \<Rightarrow> jsnum" where
  "getBytes type s =
     (if type = NetworkIngress then nullish_zero (network_ingress_bytes s)
      else nullish_zero (network_egress_bytes s))"

definition deltaBytes :: "StatType \<Rightarrow> SystemStatsRecord \<Rightarrow> SystemStatsRecord \<Rightarrow> jsnum" where
  "deltaBytes type s prev =
     (let currBytes = getBytes type s; prevBytes = getBytes type prev
      in math_max [Fin 0, js_sub currBytes prevBytes])"

definition deltaSeconds :: "SystemStatsRecord \<Rightarrow> SystemStatsRecord \<Rightarrow> jsnum" where
  "deltaSeconds s prev =
     math_max [Fin 1,
       js_div (js_sub (Fin (real_of_int (ts s))) (Fin (real_of_int (ts prev)))) (Fin 1000)]"

text \<open>
  The network branch: \<^verbatim>\<open>records.map((s, idx) => ...)\<close>, which reads \<^verbatim>\<open>records[idx - 1]\<close>
  for every index but the first. \<open>conv\<close> is \<^verbatim>\<open>convertTsMsToLocalUnixTsInMs\<close>, a function
  of another module.
\<close>

definition rate :: "(int \<Rightarrow> int) \<Rightarrow> StatType \<Rightarrow> SystemStatsRecord list \<Rightarrow> StatDatapoint list" where
  "rate conv type records =
     map (\<lambda>(idx, s).
            let date = conv (ts s) in
            if idx = 0 then \<lparr>dp_date = date, dp_value = Fin 0\<rparr>
            else
              let prev = records ! (idx - 1);
                  bytesPerSec = js_div (deltaBytes type s prev) (deltaSeconds s prev)
              in \<lparr>dp_date = date, dp_value = bytesPerSec\<rparr>)
         (enumerate 0 records)"

definition load_value :: "(SystemLoadAverage \<Rightarrow> real) \<Rightarrow> SystemStatsRecord \<Rightarrow> jsnum" where
  "load_value field s = (case load_average s of None \<Rightarrow> Fin 0 | Some la \<Rightarrow> Fin (field la))"

text \<open>
  The memoised \<^verbatim>\<open>seriesData\<close> of \<^verbatim>\<open>StatChart\<close>. \<open>data\<close> is \<open>None\<close> when the response or its
  \<^verbatim>\<open>stats\<close> is missing (\<^verbatim>\<open>!data?.stats\<close>); an empty array is not missing. The debug output
  of the network branch changes no value and is left out.
\<close>

definition seriesData ::
  "(int \<Rightarrow> int) \<Rightarrow> StatType \<Rightarrow> GetHistoricalServerStatsResponse option \<Rightarrow> Series list" where
  "seriesData conv type data =
     (case data of
        None \<Rightarrow> []
      | Some d \<Rightarrow>
          let records = rev (stats d) in
          if type = LoadAverage then
            [\<lparr>s_label = ''1m'',
               s_data = map (\<lambda>s. \<lparr>dp_date = conv (ts s), dp_value = load_value one s\<rparr>) records\<rparr>,
             \<lparr>s_label = ''5m'',
               s_data = map (\<lambda>s. \<lparr>dp_date = conv (ts s), dp_value = load_value five s\<rparr>) records\<rparr>,
             \<lparr>s_label = ''15m'',
               s_data = map (\<lambda>s. \<lparr>dp_date = conv (ts s), dp_value = load_value fifteen s\<rparr>) records\<rparr>]
          else if type = NetworkIngress \<or> type = NetworkEgress then
            [\<lparr>s_label = type_label type, s_data = rate conv type records\<rparr>]
          else
            [\<lparr>s_label = type_label type,
               s_data = map (\<lambda>stat. \<lparr>dp_date = conv (ts stat), dp_value = getStat stat type\<rparr>) records\<rparr>])"

section \<open>InnerStatChart\<close>

definition BYTES_PER_MB :: jsnum where
  "BYTES_PER_MB = Fin 1048576"

definition BYTES_PER_KB :: jsnum where
  "BYTES_PER_KB = Fin 1024"

text \<open>
  \<^verbatim>\<open>(seriesData ?? [{ data: stats ?? [] }]).flatMap((s) => s.data.map((d) => d.value))\<close>
\<close>

definition allValues :: "StatDatapoint list option \<Rightarrow> Series list option \<Rightarrow> jsnum list" where
  "allValues stats_arg series_arg =
     concat (map (map dp_value)
       (case series_arg of
          Some sd \<Rightarrow> map s_data sd
        | None \<Rightarrow> [case stats_arg of Some st \<Rightarrow> st | None \<Rightarrow> []]))"

definition maxStatValue :: "StatDatapoint list option \<Rightarrow> Series list option \<Rightarrow> jsnum" where
  "maxStatValue stats_arg series_arg =
     (let vs = allValues stats_arg series_arg
      in math_max (if length vs \<noteq> 0 then vs else [Fin 0]))"

text \<open>The local function \<^verbatim>\<open>choose\<close>, applied to \<^verbatim>\<open>maxStatValue\<close>.\<close>

definition choose_unit :: "jsnum \<Rightarrow> string \<times> jsnum" where
  "choose_unit m =
     (if js_ge m BYTES_PER_MB then (''MB/s'', BYTES_PER_MB)
      else if js_ge m BYTES_PER_KB then (''KB/s'', BYTES_PER_KB)
      else (''B/s'', Fin 1))"

record Axis =
  ax_unit :: string
  unitDivisor :: jsnum
  maxUnitValue :: jsnum

text \<open>The memoised triple \<^verbatim>\<open>{ unit, unitDivisor, maxUnitValue }\<close> of \<^verbatim>\<open>InnerStatChart\<close>.\<close>

definition InnerStatChart ::
  "StatType \<Rightarrow> StatDatapoint list option \<Rightarrow> Series list option \<Rightarrow> Axis" where
  "InnerStatChart type stats_arg series_arg =
     (let m = maxStatValue stats_arg series_arg in
      if type = NetworkIngress \<or> type = NetworkEgress then
        (let chosen = choose_unit m in
         \<lparr>ax_unit = fst chosen,
          unitDivisor = snd chosen,
          maxUnitValue =
            js_div (if js_strict_eq m (Fin 0) then Fin 1 else js_mul m (Fin 1.2)) (snd chosen)\<rparr>)
      else if type = LoadAverage then
        \<lparr>ax_unit = '''', unitDivisor = Fin 1,
         maxUnitValue = (if js_strict_eq m (Fin 0) then Fin 1 else js_mul m (Fin 1.2))\<rparr>
      else \<lparr>ax_unit = '''', unitDivisor = Fin 1, maxUnitValue = Fin 100\<rparr>)"

text \<open>\<^verbatim>\<open>getValue\<close> of the value axis: what is plotted for a datum.\<close>

definition getValue :: "StatType \<Rightarrow> Axis \<Rightarrow> StatDatapoint \<Rightarrow> jsnum" where
  "getValue type ax datum =
     (if type = NetworkIngress \<or> type = NetworkEgress
      then js_div (dp_value datum) (unitDivisor ax)
      else dp_value datum)"

text \<open>
  What \<^verbatim>\<open>StatChart\<close> hands to \<^verbatim>\<open>InnerStatChart\<close>: nothing while the request is pending
  or when \<^verbatim>\<open>seriesData.length\<close> is 0, else the points of all series and the series.
\<close>

definition StatChart ::
  "(int \<Rightarrow> int) \<Rightarrow> StatType \<Rightarrow> GetHistoricalServerStatsResponse option \<Rightarrow> bool \<Rightarrow> Axis option" where
  "StatChart conv type data isPending =
     (let sd = seriesData conv type data in
      if isPending then None
      else if length sd > 0 then Some (InnerStatChart type (Some (concat (map s_data sd))) (Some sd))
      else None)"

section \<open>The formulas of the specification\<close>

text \<open>
  The specification states its formulas over real numbers. They are written down here in
  its words, to be compared with what the code computes.
\<close>

text \<open>\<open>bytes[i]\<close>: the cumulative counter of the requested direction, 0 when absent.\<close>

definition spec_bytes :: "StatType \<Rightarrow> SystemStatsRecord \<Rightarrow> real" where
  "spec_bytes type s =
     (case (if type = NetworkIngress then network_ingress_bytes s else network_egress_bytes s) of
        None \<Rightarrow> 0 | Some b \<Rightarrow> b)"

text \<open>
  The rate at index \<open>i\<close> of an ascending record sequence: 0 at index 0, else
  \<open>max(0, bytes[i] - bytes[i-1]) / max(1, (ts[i] - ts[i-1]) / 1000)\<close>.
\<close>

definition spec_rate :: "StatType \<Rightarrow> SystemStatsRecord list \<Rightarrow> nat \<Rightarrow> real" where
  "spec_rate type recs i =
     (if i = 0 then 0
      else max 0 (spec_bytes type (recs ! i) - spec_bytes type (recs ! (i - 1)))
           / max 1 (real_of_int (ts (recs ! i) - ts (recs ! (i - 1))) / 1000))"

definition spec_rates :: "StatType \<Rightarrow> SystemStatsRecord list \<Rightarrow> real list" where
  "spec_rates type recs = map (spec_rate type recs) [0..<length recs]"

text \<open>The maximum across all points, 0 if there is none.\<close>

definition spec_max :: "real list \<Rightarrow> real" where
  "spec_max vs = (if vs = [] then 0 else Max (set vs))"

definition spec_unit :: "real \<Rightarrow> string" where
  "spec_unit m = (if 1048576 \<le> m then ''MB/s'' else if 1024 \<le> m then ''KB/s'' else ''B/s'')"

definition spec_divisor :: "real \<Rightarrow> real" where
  "spec_divisor m = (if 1048576 \<le> m then 1048576 else if 1024 \<le> m then 1024 else 1)"

definition spec_axis_max :: "real \<Rightarrow> real \<Rightarrow> real" where
  "spec_axis_max m dv = (if m = 0 then 1 else m * 1.2) / dv"

text \<open>A load-average value of a record, 0 when the record has no load average.\<close>

definition spec_load :: "(SystemLoadAverage \<Rightarrow> real) \<Rightarrow> SystemStatsRecord \<Rightarrow> real" where
  "spec_load field s = (case load_average s of None \<Rightarrow> 0 | Some la \<Rightarrow> field la)"

text \<open>The combined points of the three load-average series.\<close>

definition spec_load_values :: "SystemStatsRecord list \<Rightarrow> real list" where
  "spec_load_values recs =
     map (spec_load one) recs @ map (spec_load five) recs @ map (spec_load fifteen) recs"

text \<open>The order of the units: B/s is smaller than KB/s, which is smaller than MB/s.\<close>

definition unit_rank :: "string \<Rightarrow> nat" where
  "unit_rank u = (if u = ''MB/s'' then 2 else if u = ''KB/s'' then 1 else 0)"

section \<open>What the code computes on finite numbers\<close>

lemma math_max_pair: "math_max [Fin a, Fin b] = Fin (max a b)"
  by (simp add: math_max_def js_max2_def max_def)

lemma foldl_js_max2_Fin: "foldl js_max2 (Fin a) (map Fin vs) = Fin (fold max vs a)"
  by (induction vs arbitrary: a) (simp_all add: js_max2_def max_def)

lemma math_max_Fin: "vs \<noteq> [] \<Longrightarrow> math_max (map Fin vs) = Fin (Max (set vs))"
proof (cases vs)
  case Nil
  assume "vs \<noteq> []"
  with Nil show ?thesis by simp
next
  case (Cons v ws)
  have "math_max (map Fin vs) = foldl js_max2 (Fin v) (map Fin ws)"
    by (simp add: Cons math_max_def js_max2_def)
  also have "\<dots> = Fin (fold max ws v)"
    by (rule foldl_js_max2_Fin)
  also have "fold max ws v = Max (set vs)"
    unfolding Cons by (rule Max.set_eq_fold [symmetric])
  finally show ?thesis .
qed

lemma getBytes_Fin: "getBytes type s = Fin (spec_bytes type s)"
  by (simp add: getBytes_def spec_bytes_def nullish_zero_def split: option.splits)

lemma deltaBytes_Fin:
  "deltaBytes type s prev = Fin (max 0 (spec_bytes type s - spec_bytes type prev))"
  by (simp add: deltaBytes_def getBytes_Fin math_max_pair)

lemma deltaSeconds_Fin:
  "deltaSeconds s prev = Fin (max 1 (real_of_int (ts s - ts prev) / 1000))"
  by (simp add: deltaSeconds_def math_max_pair)

lemma length_rate: "length (rate conv type records) = length records"
  by (simp add: rate_def)

lemma dates_rate: "map dp_date (rate conv type records) = map (\<lambda>r. conv (ts r)) records"
  by (rule nth_equalityI) (simp_all add: rate_def nth_enumerate_eq Let_def)

lemma rate_nth:
  assumes "i < length records"
  shows "dp_value (rate conv type records ! i) = Fin (spec_rate type records i)"
proof (cases "i = 0")
  case True
  with assms show ?thesis
    by (simp add: rate_def nth_enumerate_eq spec_rate_def)
next
  case False
  have pos: "max 1 (real_of_int (ts (records ! i) - ts (records ! (i - 1))) / 1000) \<noteq> 0"
    by (simp add: max_def)
  from False assms show ?thesis
    using pos
    by (simp add: rate_def nth_enumerate_eq spec_rate_def Let_def deltaBytes_Fin
        deltaSeconds_Fin del: of_int_diff)
qed

lemma values_rate: "map dp_value (rate conv type records) = map Fin (spec_rates type records)"
  by (rule nth_equalityI) (simp_all add: length_rate spec_rates_def rate_nth)

lemma spec_rate_nonneg: "0 \<le> spec_rate type recs i"
  by (simp add: spec_rate_def)

lemma spec_rates_nonneg: "r \<in> set (spec_rates type recs) \<Longrightarrow> 0 \<le> r"
  by (auto simp add: spec_rates_def spec_rate_nonneg)

lemma seriesData_network:
  "type = NetworkIngress \<or> type = NetworkEgress \<Longrightarrow>
   seriesData conv type (Some d) = [\<lparr>s_label = type_label type, s_data = rate conv type (rev (stats d))\<rparr>]"
  by (auto simp add: seriesData_def)

lemma allValues_Some:
  "allValues st (Some sd) = concat (map (\<lambda>s. map dp_value (s_data s)) sd)"
  by (simp add: allValues_def comp_def)

lemma maxStatValue_Fin:
  assumes "allValues st sr = map Fin vs"
  shows "maxStatValue st sr = Fin (spec_max vs)"
proof (cases "vs = []")
  case True
  with assms show ?thesis
    by (simp add: maxStatValue_def spec_max_def math_max_def js_max2_def)
next
  case False
  with assms show ?thesis
    by (simp add: maxStatValue_def spec_max_def math_max_Fin)
qed

lemma choose_unit_Fin: "choose_unit (Fin m) = (spec_unit m, Fin (spec_divisor m))"
  by (simp add: choose_unit_def spec_unit_def spec_divisor_def BYTES_PER_MB_def BYTES_PER_KB_def)

lemma spec_divisor_pos: "0 < spec_divisor m"
  by (simp add: spec_divisor_def)

lemma headroom_Fin:
  "(if js_strict_eq (Fin m) (Fin 0) then Fin 1 else js_mul (Fin m) (Fin 1.2))
     = Fin (if m = 0 then 1 else m * 1.2)"
  by simp

lemma InnerStatChart_network:
  assumes net: "type = NetworkIngress \<or> type = NetworkEgress"
    and vals: "allValues st sr = map Fin vs"
  shows "InnerStatChart type st sr =
           \<lparr>ax_unit = spec_unit (spec_max vs),
            unitDivisor = Fin (spec_divisor (spec_max vs)),
            maxUnitValue = Fin (spec_axis_max (spec_max vs) (spec_divisor (spec_max vs)))\<rparr>"
proof -
  have d: "spec_divisor (spec_max vs) \<noteq> 0"
    using spec_divisor_pos [of "spec_max vs"] by simp
  show ?thesis
    using net d
    by (simp add: InnerStatChart_def maxStatValue_Fin [OF vals] choose_unit_Fin
        spec_axis_max_def Let_def del: js_strict_eq.simps js_mul.simps)
       (simp add: headroom_Fin)
qed

lemma allValues_network:
  assumes "type = NetworkIngress \<or> type = NetworkEgress"
  shows "allValues st (Some (seriesData conv type (Some d)))
           = map Fin (spec_rates type (rev (stats d)))"
  using assms by (simp add: allValues_Some seriesData_network values_rate)

lemma StatChart_Some:
  "StatChart conv type (Some d) False =
     Some (InnerStatChart type (Some (concat (map s_data (seriesData conv type (Some d)))))
             (Some (seriesData conv type (Some d))))"
  by (simp add: StatChart_def seriesData_def Let_def)

lemma load_value_Fin: "load_value field s = Fin (spec_load field s)"
  by (simp add: load_value_def spec_load_def split: option.splits)

lemma allValues_load:
  "allValues st (Some (seriesData conv LoadAverage (Some d)))
     = map Fin (spec_load_values (rev (stats d)))"
  by (simp add: allValues_Some seriesData_def spec_load_values_def load_value_Fin comp_def Let_def)

lemma InnerStatChart_load:
  assumes vals: "allValues st sr = map Fin vs"
  shows "InnerStatChart LoadAverage st sr =
           \<lparr>ax_unit = [], unitDivisor = Fin 1,
            maxUnitValue = Fin (if spec_max vs = 0 then 1 else spec_max vs * 1.2)\<rparr>"
  by (simp add: InnerStatChart_def maxStatValue_Fin [OF vals] Let_def)

lemma spec_max_nonneg:
  assumes "\<forall>v \<in> set vs. 0 \<le> v"
  shows "0 \<le> spec_max vs"
proof (cases vs)
  case Nil
  then show ?thesis by (simp add: spec_max_def)
next
  case (Cons v ws)
  with assms have "0 \<le> v" by simp
  also have "v \<le> Max (set vs)" by (simp add: Cons)
  finally show ?thesis by (simp add: spec_max_def Cons)
qed

lemma headroom_pos: "0 \<le> m \<Longrightarrow> 0 < (if m = 0 then 1 else m * 1.2)" for m :: real
  by simp

lemma spec_max_rates_nonneg: "0 \<le> spec_max (spec_rates type recs)"
  by (rule spec_max_nonneg) (simp add: spec_rates_nonneg)

lemma spec_unit_mono: "a \<le> b \<Longrightarrow> unit_rank (spec_unit a) \<le> unit_rank (spec_unit b)"
  by (simp add: spec_unit_def unit_rank_def)

lemma spec_max_mono:
  assumes len: "length xs = length ys"
    and le: "\<forall>i < length xs. xs ! i \<le> ys ! i"
  shows "spec_max xs \<le> spec_max ys"
proof (cases "xs = []")
  case True
  with len show ?thesis by (simp add: spec_max_def)
next
  case False
  with len have ny: "ys \<noteq> []" by auto
  have "a \<le> Max (set ys)" if "a \<in> set xs" for a
  proof -
    from that obtain i where i: "i < length xs" and a: "a = xs ! i"
      by (auto simp add: in_set_conv_nth)
    from i le have "xs ! i \<le> ys ! i" by simp
    also from i len have "ys ! i \<le> Max (set ys)" by simp
    finally show ?thesis by (simp add: a)
  qed
  with False ny show ?thesis by (simp add: spec_max_def)
qed

lemma spec_rate_mono:
  assumes i: "0 < i"
    and tss: "ts (r1 ! i) - ts (r1 ! (i - 1)) = ts (r2 ! i) - ts (r2 ! (i - 1))"
    and ge: "js_ge (deltaBytes type (r2 ! i) (r2 ! (i - 1))) (deltaBytes type (r1 ! i) (r1 ! (i - 1)))"
  shows "spec_rate type r1 i \<le> spec_rate type r2 i"
proof -
  let ?dt = "max 1 (real_of_int (ts (r2 ! i) - ts (r2 ! (i - 1))) / 1000)"
  have dt: "0 < ?dt" by (simp add: max_def)
  from ge have "max 0 (spec_bytes type (r1 ! i) - spec_bytes type (r1 ! (i - 1)))
      \<le> max 0 (spec_bytes type (r2 ! i) - spec_bytes type (r2 ! (i - 1)))"
    by (simp add: deltaBytes_Fin)
  then have "max 0 (spec_bytes type (r1 ! i) - spec_bytes type (r1 ! (i - 1))) / ?dt
      \<le> max 0 (spec_bytes type (r2 ! i) - spec_bytes type (r2 ! (i - 1))) / ?dt"
    using dt by (simp only: divide_right_mono less_imp_le)
  with i show ?thesis
    by (simp only: spec_rate_def tss) simp
qed


section \<open>Network rates\<close>

text \<open>
  Claim C1. For Network Ingress and Network Egress, the values of the one series are the
  rates of the specification over the reversed (ascending) record sequence: 0 at index 0 and
  \<open>max(0, bytes[i] - bytes[i-1]) / max(1, (ts[i] - ts[i-1]) / 1000)\<close> at every index
  \<open>i > 0\<close>, one rate per record; every computed rate is non-negative.
\<close>

theorem network_rate_series:
  assumes "type = NetworkIngress \<or> type = NetworkEgress"
  shows "map (\<lambda>s. map dp_value (s_data s)) (seriesData conv type (Some d)) =
           [map Fin (spec_rates type (rev (stats d)))] \<and>
         length (spec_rates type (rev (stats d))) = length (stats d) \<and>
         (\<forall>s \<in> set (seriesData conv type (Some d)). \<forall>p \<in> set (s_data s).
            js_ge (dp_value p) (Fin 0))"
proof -
  let ?recs = "rev (stats d)"
  have v: "map dp_value (rate conv type ?recs) = map Fin (spec_rates type ?recs)"
    by (rule values_rate)
  have "js_ge (dp_value p) (Fin 0)" if "p \<in> set (rate conv type ?recs)" for p
  proof -
    from that have "dp_value p \<in> set (map dp_value (rate conv type ?recs))" by simp
    then obtain r where "r \<in> set (spec_rates type ?recs)" and "dp_value p = Fin r"
      unfolding v by auto
    then show ?thesis by (simp add: spec_rates_nonneg)
  qed
  then show ?thesis
    using assms by (simp add: seriesData_network v spec_rates_def)
qed

theorem network_rate_series_witness:
  "let d = \<lparr>stats =
        [\<lparr>ts = 2000, cpu_perc = None, load_average = None, mem_used_gb = 2, mem_total_gb = 8,
          disk_used_gb = 1, disk_total_gb = 4,
          network_ingress_bytes = Some 3000, network_egress_bytes = None\<rparr>,
         \<lparr>ts = 1000, cpu_perc = None, load_average = None, mem_used_gb = 2, mem_total_gb = 8,
          disk_used_gb = 1, disk_total_gb = 4,
          network_ingress_bytes = Some 3000, network_egress_bytes = None\<rparr>,
         \<lparr>ts = 0, cpu_perc = None, load_average = None, mem_used_gb = 2, mem_total_gb = 8,
          disk_used_gb = 1, disk_total_gb = 4,
          network_ingress_bytes = Some 1000, network_egress_bytes = None\<rparr>]\<rparr>
   in (NetworkIngress = NetworkIngress \<or> NetworkIngress = NetworkEgress) \<and>
      map (map dp_value \<circ> s_data) (seriesData id NetworkIngress (Some d))
        = [[Fin 0, Fin 2000, Fin 0]]"
proof -
  have net: "NetworkIngress = NetworkIngress \<or> NetworkIngress = NetworkEgress" by simp
  show ?thesis
    unfolding Let_def
    using network_rate_series [OF net, of id "\<lparr>stats =
        [\<lparr>ts = 2000, cpu_perc = None, load_average = None, mem_used_gb = 2, mem_total_gb = 8,
          disk_used_gb = 1, disk_total_gb = 4,
          network_ingress_bytes = Some 3000, network_egress_bytes = None\<rparr>,
         \<lparr>ts = 1000, cpu_perc = None, load_average = None, mem_used_gb = 2, mem_total_gb = 8,
          disk_used_gb = 1, disk_total_gb = 4,
          network_ingress_bytes = Some 3000, network_egress_bytes = None\<rparr>,
         \<lparr>ts = 0, cpu_perc = None, load_average = None, mem_used_gb = 2, mem_total_gb = 8,
          disk_used_gb = 1, disk_total_gb = 4,
          network_ingress_bytes = Some 1000, network_egress_bytes = None\<rparr>]\<rparr>"]
    by (simp add: spec_rates_def spec_rate_def spec_bytes_def comp_def upt_rec)
qed



section \<open>Unit and axis\<close>

text \<open>
  Claim C2. For Network Ingress and Network Egress the chart is drawn with one unit for the
  whole series, chosen from \<open>maxRate\<close>, the maximum of all computed rates (0 for an empty
  series): MB/s with divisor 1048576 when \<open>maxRate \<ge> 1048576\<close>, else KB/s with divisor 1024
  when \<open>maxRate \<ge> 1024\<close>, else B/s with divisor 1; the plotted value of every point is its
  stored rate divided by that divisor.
\<close>

theorem network_unit_selection:
  assumes "type = NetworkIngress \<or> type = NetworkEgress"
  shows "let rates = spec_rates type (rev (stats d));
             maxRate = spec_max rates;
             sd = seriesData conv type (Some d);
             pts = concat (map s_data sd);
             ax = InnerStatChart type (Some pts) (Some sd)
         in StatChart conv type (Some d) False = Some ax \<and>
            map dp_value pts = map Fin rates \<and>
            ax_unit ax = spec_unit maxRate \<and>
            unitDivisor ax = Fin (spec_divisor maxRate) \<and>
            map (getValue type ax) pts = map (\<lambda>r. Fin (r / spec_divisor maxRate)) rates"
proof -
  let ?rates = "spec_rates type (rev (stats d))"
  let ?sd = "seriesData conv type (Some d)"
  let ?pts = "concat (map s_data ?sd)"
  let ?ax = "InnerStatChart type (Some ?pts) (Some ?sd)"
  have ax: "?ax = \<lparr>ax_unit = spec_unit (spec_max ?rates),
                   unitDivisor = Fin (spec_divisor (spec_max ?rates)),
                   maxUnitValue = Fin (spec_axis_max (spec_max ?rates) (spec_divisor (spec_max ?rates)))\<rparr>"
    by (rule InnerStatChart_network [OF assms allValues_network [OF assms]])
  have pts: "map dp_value ?pts = map Fin ?rates"
    using assms by (simp add: seriesData_network values_rate)
  have d: "spec_divisor (spec_max ?rates) \<noteq> 0"
    using spec_divisor_pos [of "spec_max ?rates"] by simp
  have "map (getValue type ?ax) ?pts
          = map (\<lambda>v. js_div v (Fin (spec_divisor (spec_max ?rates)))) (map dp_value ?pts)"
    using assms by (simp add: getValue_def ax comp_def)
  also have "\<dots> = map (\<lambda>r. Fin (r / spec_divisor (spec_max ?rates))) ?rates"
    unfolding pts using d by (simp add: comp_def)
  finally have plot: "map (getValue type ?ax) ?pts
          = map (\<lambda>r. Fin (r / spec_divisor (spec_max ?rates))) ?rates" .
  show ?thesis
    unfolding Let_def
    using pts plot by (simp add: StatChart_Some ax)
qed

theorem network_unit_selection_witness:
  "let d = \<lparr>stats =
        [\<lparr>ts = 2000, cpu_perc = None, load_average = None, mem_used_gb = 2, mem_total_gb = 8,
          disk_used_gb = 1, disk_total_gb = 4,
          network_ingress_bytes = Some 3000, network_egress_bytes = None\<rparr>,
         \<lparr>ts = 1000, cpu_perc = None, load_average = None, mem_used_gb = 2, mem_total_gb = 8,
          disk_used_gb = 1, disk_total_gb = 4,
          network_ingress_bytes = Some 3000, network_egress_bytes = None\<rparr>,
         \<lparr>ts = 0, cpu_perc = None, load_average = None, mem_used_gb = 2, mem_total_gb = 8,
          disk_used_gb = 1, disk_total_gb = 4,
          network_ingress_bytes = Some 1000, network_egress_bytes = None\<rparr>]\<rparr>
   in (NetworkIngress = NetworkIngress \<or> NetworkIngress = NetworkEgress) \<and>
      map_option ax_unit (StatChart id NetworkIngress (Some d) False) = Some ''KB/s'' \<and>
      map_option unitDivisor (StatChart id NetworkIngress (Some d) False) = Some (Fin 1024)"
proof -
  have net: "NetworkIngress = NetworkIngress \<or> NetworkIngress = NetworkEgress" by simp
  show ?thesis
    unfolding Let_def
    using network_unit_selection [OF net, of "\<lparr>stats =
        [\<lparr>ts = 2000, cpu_perc = None, load_average = None, mem_used_gb = 2, mem_total_gb = 8,
          disk_used_gb = 1, disk_total_gb = 4,
          network_ingress_bytes = Some 3000, network_egress_bytes = None\<rparr>,
         \<lparr>ts = 1000, cpu_perc = None, load_average = None, mem_used_gb = 2, mem_total_gb = 8,
          disk_used_gb = 1, disk_total_gb = 4,
          network_ingress_bytes = Some 3000, network_egress_bytes = None\<rparr>,
         \<lparr>ts = 0, cpu_perc = None, load_average = None, mem_used_gb = 2, mem_total_gb = 8,
          disk_used_gb = 1, disk_total_gb = 4,
          network_ingress_bytes = Some 1000, network_egress_bytes = None\<rparr>]\<rparr>" id]
    by (simp add: Let_def spec_rates_def spec_rate_def spec_bytes_def upt_rec spec_max_def
        spec_unit_def spec_divisor_def)
qed

text \<open>
  Claim C3. The maximum of the value axis is \<open>(maxRate == 0 ? 1 : maxRate * 1.2) / divisor\<close>
  for Network Ingress and Network Egress, and \<open>(maxValue == 0 ? 1 : maxValue * 1.2)\<close> for
  Load Average, where \<open>maxValue\<close> is the maximum over the points of all three series (the
  other kinds have the fixed maximum 100). For every sequence of records of the data model,
  whose load averages are non-negative, and for every kind, the maximum is strictly greater
  than 0, all-zero values included.
\<close>

theorem axis_max_positive:
  "let sd = seriesData conv type (Some d);
       ax = InnerStatChart type (Some (concat (map s_data sd))) (Some sd);
       maxRate = spec_max (spec_rates type (rev (stats d)));
       maxValue = spec_max (spec_load_values (rev (stats d)))
   in StatChart conv type (Some d) False = Some ax \<and>
      (type = NetworkIngress \<or> type = NetworkEgress \<longrightarrow>
         maxUnitValue ax = Fin ((if maxRate = 0 then 1 else maxRate * 1.2) / spec_divisor maxRate) \<and>
         0 < (if maxRate = 0 then 1 else maxRate * 1.2) / spec_divisor maxRate) \<and>
      (type = LoadAverage \<longrightarrow>
         maxUnitValue ax = Fin (if maxValue = 0 then 1 else maxValue * 1.2) \<and>
         ((\<forall>v \<in> set (spec_load_values (rev (stats d))). 0 \<le> v) \<longrightarrow>
            0 < (if maxValue = 0 then 1 else maxValue * 1.2))) \<and>
      (type = Cpu \<or> type = Memory \<or> type = Disk \<longrightarrow> maxUnitValue ax = Fin 100) \<and>
      ((\<forall>v \<in> set (spec_load_values (rev (stats d))). 0 \<le> v) \<longrightarrow>
         js_ge (maxUnitValue ax) (Fin 0) \<and> \<not> js_ge (Fin 0) (maxUnitValue ax))"
proof -
  let ?sd = "seriesData conv type (Some d)"
  let ?ax = "InnerStatChart type (Some (concat (map s_data ?sd))) (Some ?sd)"
  let ?m = "spec_max (spec_rates type (rev (stats d)))"
  let ?v = "spec_max (spec_load_values (rev (stats d)))"
  have netpos: "0 < (if ?m = 0 then 1 else ?m * 1.2) / spec_divisor ?m"
  proof -
    have "0 < (if ?m = 0 then 1 else ?m * 1.2)"
      by (rule headroom_pos) (rule spec_max_rates_nonneg)
    then show ?thesis
      using spec_divisor_pos [of ?m] by (simp only: divide_pos_pos)
  qed
  have net: "maxUnitValue ?ax = Fin ((if ?m = 0 then 1 else ?m * 1.2) / spec_divisor ?m) \<and>
             0 < (if ?m = 0 then 1 else ?m * 1.2) / spec_divisor ?m"
    if t: "type = NetworkIngress \<or> type = NetworkEgress"
    using netpos
    by (simp add: InnerStatChart_network [OF t allValues_network [OF t]] spec_axis_max_def)
  have loadpos: "0 < (if ?v = 0 then 1 else ?v * 1.2)"
    if "\<forall>v \<in> set (spec_load_values (rev (stats d))). 0 \<le> v"
  proof -
    from that have "0 \<le> ?v" by (rule spec_max_nonneg)
    then show ?thesis by (rule headroom_pos)
  qed
  have load: "maxUnitValue ?ax = Fin (if ?v = 0 then 1 else ?v * 1.2) \<and>
              ((\<forall>v \<in> set (spec_load_values (rev (stats d))). 0 \<le> v) \<longrightarrow>
                 0 < (if ?v = 0 then 1 else ?v * 1.2))"
    if t: "type = LoadAverage"
  proof
    show "maxUnitValue ?ax = Fin (if ?v = 0 then 1 else ?v * 1.2)"
      unfolding t by (simp add: InnerStatChart_load [OF allValues_load])
    show "(\<forall>v \<in> set (spec_load_values (rev (stats d))). 0 \<le> v) \<longrightarrow>
            0 < (if ?v = 0 then 1 else ?v * 1.2)"
      using loadpos by blast
  qed
  have other: "maxUnitValue ?ax = Fin 100" if "type = Cpu \<or> type = Memory \<or> type = Disk"
    using that by (auto simp add: InnerStatChart_def Let_def)
  have gt: "js_ge (Fin x) (Fin 0) \<and> \<not> js_ge (Fin 0) (Fin x)" if "0 < x" for x
    using that by simp
  have pos: "js_ge (maxUnitValue ?ax) (Fin 0) \<and> \<not> js_ge (Fin 0) (maxUnitValue ?ax)"
    if h: "\<forall>v \<in> set (spec_load_values (rev (stats d))). 0 \<le> v"
  proof (cases type)
    case LoadAverage
    with load have eq: "maxUnitValue ?ax = Fin (if ?v = 0 then 1 else ?v * 1.2)" by blast
    show ?thesis unfolding eq by (rule gt [OF loadpos [OF h]])
  next
    case NetworkIngress
    with net have eq: "maxUnitValue ?ax = Fin ((if ?m = 0 then 1 else ?m * 1.2) / spec_divisor ?m)"
      by blast
    show ?thesis unfolding eq by (rule gt [OF netpos])
  next
    case NetworkEgress
    with net have eq: "maxUnitValue ?ax = Fin ((if ?m = 0 then 1 else ?m * 1.2) / spec_divisor ?m)"
      by blast
    show ?thesis unfolding eq by (rule gt [OF netpos])
  next
    case Cpu
    with other show ?thesis by simp
  next
    case Memory
    with other show ?thesis by simp
  next
    case Disk
    with other show ?thesis by simp
  qed
  show ?thesis
    unfolding Let_def using net load other pos StatChart_Some by blast
qed

theorem axis_max_positive_witness:
  "let net = \<lparr>stats =
        [\<lparr>ts = 2000, cpu_perc = None, load_average = None, mem_used_gb = 2, mem_total_gb = 8,
          disk_used_gb = 1, disk_total_gb = 4,
          network_ingress_bytes = Some 3000, network_egress_bytes = None\<rparr>,
         \<lparr>ts = 1000, cpu_perc = None, load_average = None, mem_used_gb = 2, mem_total_gb = 8,
          disk_used_gb = 1, disk_total_gb = 4,
          network_ingress_bytes = Some 3000, network_egress_bytes = None\<rparr>,
         \<lparr>ts = 0, cpu_perc = None, load_average = None, mem_used_gb = 2, mem_total_gb = 8,
          disk_used_gb = 1, disk_total_gb = 4,
          network_ingress_bytes = Some 1000, network_egress_bytes = None\<rparr>]\<rparr>;
       idle = \<lparr>stats =
        [\<lparr>ts = 1000, cpu_perc = Some 0, load_average = Some \<lparr>one = 0, five = 0, fifteen = 0\<rparr>,
          mem_used_gb = 2, mem_total_gb = 8, disk_used_gb = 1, disk_total_gb = 4,
          network_ingress_bytes = None, network_egress_bytes = None\<rparr>,
         \<lparr>ts = 0, cpu_perc = Some 0, load_average = None,
          mem_used_gb = 2, mem_total_gb = 8, disk_used_gb = 1, disk_total_gb = 4,
          network_ingress_bytes = None, network_egress_bytes = None\<rparr>]\<rparr>
   in map_option maxUnitValue (StatChart id NetworkIngress (Some net) False) = Some (Fin (75 / 32)) \<and>
      spec_load_values (rev (stats idle)) = [0, 0, 0, 0, 0, 0] \<and>
      map_option maxUnitValue (StatChart id LoadAverage (Some idle) False) = Some (Fin 1) \<and>
      map_option maxUnitValue (StatChart id Cpu (Some idle) False) = Some (Fin 100)"
  unfolding Let_def
  using axis_max_positive [of id NetworkIngress "\<lparr>stats =
        [\<lparr>ts = 2000, cpu_perc = None, load_average = None, mem_used_gb = 2, mem_total_gb = 8,
          disk_used_gb = 1, disk_total_gb = 4,
          network_ingress_bytes = Some 3000, network_egress_bytes = None\<rparr>,
         \<lparr>ts = 1000, cpu_perc = None, load_average = None, mem_used_gb = 2, mem_total_gb = 8,
          disk_used_gb = 1, disk_total_gb = 4,
          network_ingress_bytes = Some 3000, network_egress_bytes = None\<rparr>,
         \<lparr>ts = 0, cpu_perc = None, load_average = None, mem_used_gb = 2, mem_total_gb = 8,
          disk_used_gb = 1, disk_total_gb = 4,
          network_ingress_bytes = Some 1000, network_egress_bytes = None\<rparr>]\<rparr>"]
    axis_max_positive [of id LoadAverage "\<lparr>stats =
        [\<lparr>ts = 1000, cpu_perc = Some 0, load_average = Some \<lparr>one = 0, five = 0, fifteen = 0\<rparr>,
          mem_used_gb = 2, mem_total_gb = 8, disk_used_gb = 1, disk_total_gb = 4,
          network_ingress_bytes = None, network_egress_bytes = None\<rparr>,
         \<lparr>ts = 0, cpu_perc = Some 0, load_average = None,
          mem_used_gb = 2, mem_total_gb = 8, disk_used_gb = 1, disk_total_gb = 4,
          network_ingress_bytes = None, network_egress_bytes = None\<rparr>]\<rparr>"]
    axis_max_positive [of id Cpu "\<lparr>stats =
        [\<lparr>ts = 1000, cpu_perc = Some 0, load_average = Some \<lparr>one = 0, five = 0, fifteen = 0\<rparr>,
          mem_used_gb = 2, mem_total_gb = 8, disk_used_gb = 1, disk_total_gb = 4,
          network_ingress_bytes = None, network_egress_bytes = None\<rparr>,
         \<lparr>ts = 0, cpu_perc = Some 0, load_average = None,
          mem_used_gb = 2, mem_total_gb = 8, disk_used_gb = 1, disk_total_gb = 4,
          network_ingress_bytes = None, network_egress_bytes = None\<rparr>]\<rparr>"]
  by (simp add: Let_def spec_rates_def spec_rate_def spec_bytes_def upt_rec spec_max_def
        spec_divisor_def spec_load_values_def spec_load_def)

text \<open>
  Claim C7, as the code has it. Unit selection is monotonic in \<open>maxRate\<close>: take two record
  sequences with the same timestamps, where every byte delta (\<^verbatim>\<open>deltaBytes\<close>) of the
  second is greater than or equal to the corresponding delta of the first. Then the unit
  chosen for the second is never smaller than the unit chosen for the first.
\<close>

theorem unit_selection_monotone:
  assumes net: "type = NetworkIngress \<or> type = NetworkEgress"
    and tss: "map ts (stats d1) = map ts (stats d2)"
    and ge: "\<forall>i. 0 < i \<and> i < length (stats d1) \<longrightarrow>
               js_ge (deltaBytes type (rev (stats d2) ! i) (rev (stats d2) ! (i - 1)))
                     (deltaBytes type (rev (stats d1) ! i) (rev (stats d1) ! (i - 1)))"
  shows "let sd1 = seriesData conv type (Some d1);
             sd2 = seriesData conv type (Some d2);
             ax1 = InnerStatChart type (Some (concat (map s_data sd1))) (Some sd1);
             ax2 = InnerStatChart type (Some (concat (map s_data sd2))) (Some sd2)
         in StatChart conv type (Some d1) False = Some ax1 \<and>
            StatChart conv type (Some d2) False = Some ax2 \<and>
            unit_rank (ax_unit ax1) \<le> unit_rank (ax_unit ax2)"
proof -
  let ?r1 = "rev (stats d1)" and ?r2 = "rev (stats d2)"
  from tss have len: "length (stats d1) = length (stats d2)"
    by (rule map_eq_imp_length_eq)
  from tss have rts: "map ts ?r1 = map ts ?r2"
    by (simp add: rev_map [symmetric])
  have ts_eq: "ts (?r1 ! i) = ts (?r2 ! i)" if "i < length (stats d1)" for i
  proof -
    from that len have "map ts ?r1 ! i = ts (?r1 ! i)" and "map ts ?r2 ! i = ts (?r2 ! i)"
      by simp_all
    with rts show ?thesis by simp
  qed
  have "spec_rate type ?r1 i \<le> spec_rate type ?r2 i" if i: "i < length (stats d1)" for i
  proof (cases "i = 0")
    case True
    then show ?thesis by (simp add: spec_rate_def)
  next
    case False
    then have pos: "0 < i" by simp
    from i have "i - 1 < length (stats d1)" by simp
    with i have "ts (?r1 ! i) - ts (?r1 ! (i - 1)) = ts (?r2 ! i) - ts (?r2 ! (i - 1))"
      by (simp only: ts_eq)
    moreover from ge pos i
    have "js_ge (deltaBytes type (?r2 ! i) (?r2 ! (i - 1))) (deltaBytes type (?r1 ! i) (?r1 ! (i - 1)))"
      by blast
    ultimately show ?thesis
      using pos by (rule spec_rate_mono [rotated])
  qed
  then have "spec_max (spec_rates type ?r1) \<le> spec_max (spec_rates type ?r2)"
    using len by (intro spec_max_mono) (simp_all add: spec_rates_def)
  then have "unit_rank (spec_unit (spec_max (spec_rates type ?r1)))
      \<le> unit_rank (spec_unit (spec_max (spec_rates type ?r2)))"
    by (rule spec_unit_mono)
  then show ?thesis
    unfolding Let_def
    by (simp add: StatChart_Some InnerStatChart_network [OF net allValues_network [OF net]])
qed

theorem unit_selection_monotone_witness:
  "let d1 = \<lparr>stats =
        [\<lparr>ts = 1000, cpu_perc = None, load_average = None, mem_used_gb = 2, mem_total_gb = 8,
          disk_used_gb = 1, disk_total_gb = 4,
          network_ingress_bytes = Some 1500, network_egress_bytes = None\<rparr>,
         \<lparr>ts = 0, cpu_perc = None, load_average = None, mem_used_gb = 2, mem_total_gb = 8,
          disk_used_gb = 1, disk_total_gb = 4,
          network_ingress_bytes = Some 1000, network_egress_bytes = None\<rparr>]\<rparr>;
       d2 = \<lparr>stats =
        [\<lparr>ts = 1000, cpu_perc = None, load_average = None, mem_used_gb = 2, mem_total_gb = 8,
          disk_used_gb = 1, disk_total_gb = 4,
          network_ingress_bytes = Some 3000, network_egress_bytes = None\<rparr>,
         \<lparr>ts = 0, cpu_perc = None, load_average = None, mem_used_gb = 2, mem_total_gb = 8,
          disk_used_gb = 1, disk_total_gb = 4,
          network_ingress_bytes = Some 1000, network_egress_bytes = None\<rparr>]\<rparr>
   in (NetworkIngress = NetworkIngress \<or> NetworkIngress = NetworkEgress) \<and>
      map ts (stats d1) = map ts (stats d2) \<and>
      deltaBytes NetworkIngress (rev (stats d1) ! 1) (rev (stats d1) ! 0) = Fin 500 \<and>
      deltaBytes NetworkIngress (rev (stats d2) ! 1) (rev (stats d2) ! 0) = Fin 2000 \<and>
      map_option ax_unit (StatChart id NetworkIngress (Some d1) False) = Some ''B/s'' \<and>
      map_option ax_unit (StatChart id NetworkIngress (Some d2) False) = Some ''KB/s'' \<and>
      unit_rank ''B/s'' \<le> unit_rank ''KB/s''"
proof -
  let ?d1 = "\<lparr>stats =
        [\<lparr>ts = 1000, cpu_perc = None, load_average = None, mem_used_gb = 2, mem_total_gb = 8,
          disk_used_gb = 1, disk_total_gb = 4,
          network_ingress_bytes = Some 1500, network_egress_bytes = None\<rparr>,
         \<lparr>ts = 0, cpu_perc = None, load_average = None, mem_used_gb = 2, mem_total_gb = 8,
          disk_used_gb = 1, disk_total_gb = 4,
          network_ingress_bytes = Some 1000, network_egress_bytes = None\<rparr>]\<rparr>"
  let ?d2 = "\<lparr>stats =
        [\<lparr>ts = 1000, cpu_perc = None, load_average = None, mem_used_gb = 2, mem_total_gb = 8,
          disk_used_gb = 1, disk_total_gb = 4,
          network_ingress_bytes = Some 3000, network_egress_bytes = None\<rparr>,
         \<lparr>ts = 0, cpu_perc = None, load_average = None, mem_used_gb = 2, mem_total_gb = 8,
          disk_used_gb = 1, disk_total_gb = 4,
          network_ingress_bytes = Some 1000, network_egress_bytes = None\<rparr>]\<rparr>"
  have net: "NetworkIngress = NetworkIngress \<or> NetworkIngress = NetworkEgress" by simp
  have tss: "map ts (stats ?d1) = map ts (stats ?d2)" by simp
  have ge: "\<forall>i. 0 < i \<and> i < length (stats ?d1) \<longrightarrow>
               js_ge (deltaBytes NetworkIngress (rev (stats ?d2) ! i) (rev (stats ?d2) ! (i - 1)))
                     (deltaBytes NetworkIngress (rev (stats ?d1) ! i) (rev (stats ?d1) ! (i - 1)))"
  proof (intro allI impI)
    fix i :: nat
    assume "0 < i \<and> i < length (stats ?d1)"
    then have "i = 1" by simp
    then show "js_ge (deltaBytes NetworkIngress (rev (stats ?d2) ! i) (rev (stats ?d2) ! (i - 1)))
                     (deltaBytes NetworkIngress (rev (stats ?d1) ! i) (rev (stats ?d1) ! (i - 1)))"
      by (simp add: deltaBytes_Fin spec_bytes_def)
  qed
  show ?thesis
    unfolding Let_def
    using unit_selection_monotone [OF net tss ge, of id]
    by (simp add: Let_def deltaBytes_Fin spec_bytes_def unit_rank_def InnerStatChart_def
        maxStatValue_def allValues_def seriesData_def rate_def enumerate_eq_zip upt_rec
        deltaSeconds_Fin math_max_def js_max2_def choose_unit_def BYTES_PER_MB_def
        BYTES_PER_KB_def)
qed

text \<open>
  Claim C7, as stated, compares any two record sequences. When the timestamps differ, a
  larger byte delta can give a lower rate: 2000 bytes over one second are shown in KB/s,
  3000 bytes over ten seconds in B/s.
\<close>

theorem longer_interval_smaller_unit:
  "js_ge
     (deltaBytes NetworkIngress
        \<lparr>ts = 10000, cpu_perc = None, load_average = None, mem_used_gb = 2, mem_total_gb = 8,
          disk_used_gb = 1, disk_total_gb = 4,
          network_ingress_bytes = Some 4000, network_egress_bytes = None\<rparr>
        \<lparr>ts = 0, cpu_perc = None, load_average = None, mem_used_gb = 2, mem_total_gb = 8,
          disk_used_gb = 1, disk_total_gb = 4,
          network_ingress_bytes = Some 1000, network_egress_bytes = None\<rparr>)
     (deltaBytes NetworkIngress
        \<lparr>ts = 1000, cpu_perc = None, load_average = None, mem_used_gb = 2, mem_total_gb = 8,
          disk_used_gb = 1, disk_total_gb = 4,
          network_ingress_bytes = Some 3000, network_egress_bytes = None\<rparr>
        \<lparr>ts = 0, cpu_perc = None, load_average = None, mem_used_gb = 2, mem_total_gb = 8,
          disk_used_gb = 1, disk_total_gb = 4,
          network_ingress_bytes = Some 1000, network_egress_bytes = None\<rparr>) \<and>
   map_option ax_unit (StatChart id NetworkIngress (Some \<lparr>stats =
        [\<lparr>ts = 1000, cpu_perc = None, load_average = None, mem_used_gb = 2, mem_total_gb = 8,
          disk_used_gb = 1, disk_total_gb = 4,
          network_ingress_bytes = Some 3000, network_egress_bytes = None\<rparr>,
         \<lparr>ts = 0, cpu_perc = None, load_average = None, mem_used_gb = 2, mem_total_gb = 8,
          disk_used_gb = 1, disk_total_gb = 4,
          network_ingress_bytes = Some 1000, network_egress_bytes = None\<rparr>]\<rparr>) False)
     = Some ''KB/s'' \<and>
   map_option ax_unit (StatChart id NetworkIngress (Some \<lparr>stats =
        [\<lparr>ts = 10000, cpu_perc = None, load_average = None, mem_used_gb = 2, mem_total_gb = 8,
          disk_used_gb = 1, disk_total_gb = 4,
          network_ingress_bytes = Some 4000, network_egress_bytes = None\<rparr>,
         \<lparr>ts = 0, cpu_perc = None, load_average = None, mem_used_gb = 2, mem_total_gb = 8,
          disk_used_gb = 1, disk_total_gb = 4,
          network_ingress_bytes = Some 1000, network_egress_bytes = None\<rparr>]\<rparr>) False)
     = Some ''B/s'' \<and>
   unit_rank ''B/s'' < unit_rank ''KB/s''"
  by (simp add: deltaBytes_def getBytes_def nullish_zero_def StatChart_def seriesData_def
      rate_def enumerate_eq_zip upt_rec Let_def deltaSeconds_def InnerStatChart_def
      maxStatValue_def allValues_def math_max_def js_max2_def choose_unit_def
      BYTES_PER_MB_def BYTES_PER_KB_def unit_rank_def)

section \<open>Memory and disk percentages\<close>

text \<open>
  Claim C4, as the code has it. For Memory (and Disk, on the disk fields) the value of every
  point is the quotient \<^verbatim>\<open>(100 * used) / total\<close> of its record, divided without any
  guard: it is \<open>100 * used / total\<close> when the total is not 0; when the total is 0 it is NaN
  only if the used amount is 0 too, and one of the two infinities otherwise.
\<close>

theorem percent_division_unguarded:
  "map (\<lambda>sr. map dp_value (s_data sr)) (seriesData conv Memory (Some d))
     = [map (\<lambda>s. getStat s Memory) (rev (stats d))] \<and>
   map (\<lambda>sr. map dp_value (s_data sr)) (seriesData conv Disk (Some d))
     = [map (\<lambda>s. getStat s Disk) (rev (stats d))] \<and>
   (mem_total_gb s \<noteq> 0 \<longrightarrow> getStat s Memory = Fin (100 * mem_used_gb s / mem_total_gb s)) \<and>
   (mem_total_gb s = 0 \<and> mem_used_gb s = 0 \<longrightarrow> getStat s Memory = NaN) \<and>
   (mem_total_gb s = 0 \<and> mem_used_gb s \<noteq> 0 \<longrightarrow>
      getStat s Memory = PInf \<or> getStat s Memory = NInf) \<and>
   (disk_total_gb s \<noteq> 0 \<longrightarrow> getStat s Disk = Fin (100 * disk_used_gb s / disk_total_gb s)) \<and>
   (disk_total_gb s = 0 \<and> disk_used_gb s = 0 \<longrightarrow> getStat s Disk = NaN) \<and>
   (disk_total_gb s = 0 \<and> disk_used_gb s \<noteq> 0 \<longrightarrow>
      getStat s Disk = PInf \<or> getStat s Disk = NInf)"
  by (simp add: seriesData_def getStat_def comp_def)

theorem percent_division_unguarded_witness:
  "let full = \<lparr>ts = 0, cpu_perc = None, load_average = None, mem_used_gb = 2,
          mem_total_gb = 8, disk_used_gb = 0, disk_total_gb = 0,
          network_ingress_bytes = None, network_egress_bytes = None\<rparr>;
       none = \<lparr>ts = 1000, cpu_perc = None, load_average = None, mem_used_gb = 0,
          mem_total_gb = 0, disk_used_gb = 10, disk_total_gb = 40,
          network_ingress_bytes = None, network_egress_bytes = None\<rparr>
   in map (map dp_value \<circ> s_data) (seriesData id Memory (Some \<lparr>stats = [none, full]\<rparr>))
        = [[Fin 25, NaN]] \<and>
      map (map dp_value \<circ> s_data) (seriesData id Disk (Some \<lparr>stats = [none, full]\<rparr>))
        = [[NaN, Fin 25]] \<and>
      mem_total_gb full \<noteq> 0 \<and> getStat full Memory = Fin 25 \<and>
      disk_total_gb full = 0 \<and> disk_used_gb full = 0 \<and> getStat full Disk = NaN \<and>
      mem_total_gb none = 0 \<and> mem_used_gb none = 0 \<and> getStat none Memory = NaN \<and>
      disk_total_gb none \<noteq> 0 \<and> getStat none Disk = Fin 25"
proof -
  let ?full = "\<lparr>ts = 0, cpu_perc = None, load_average = None, mem_used_gb = 2,
          mem_total_gb = 8, disk_used_gb = 0, disk_total_gb = 0,
          network_ingress_bytes = None, network_egress_bytes = None\<rparr>"
  let ?none = "\<lparr>ts = 1000, cpu_perc = None, load_average = None, mem_used_gb = 0,
          mem_total_gb = 0, disk_used_gb = 10, disk_total_gb = 40,
          network_ingress_bytes = None, network_egress_bytes = None\<rparr>"
  show ?thesis
    unfolding Let_def
    using percent_division_unguarded [of id "\<lparr>stats = [?none, ?full]\<rparr>" ?full]
      percent_division_unguarded [of id "\<lparr>stats = [?none, ?full]\<rparr>" ?none]
    by (simp add: comp_def)
qed

text \<open>
  Claim C4, as stated, says that the value is NaN whenever the total is 0. A record with
  2 GB used of a total of 0 gives \<^verbatim>\<open>Infinity\<close>.
\<close>

theorem zero_total_gives_infinity:
  "mem_total_gb \<lparr>ts = 0, cpu_perc = None, load_average = None, mem_used_gb = 2,
      mem_total_gb = 0, disk_used_gb = 0, disk_total_gb = 1,
      network_ingress_bytes = None, network_egress_bytes = None\<rparr> = 0 \<and>
   seriesData id Memory (Some \<lparr>stats = [\<lparr>ts = 0, cpu_perc = None, load_average = None,
      mem_used_gb = 2, mem_total_gb = 0, disk_used_gb = 0, disk_total_gb = 1,
      network_ingress_bytes = None, network_egress_bytes = None\<rparr>]\<rparr>)
     = [\<lparr>s_label = ''Memory'', s_data = [\<lparr>dp_date = 0, dp_value = PInf\<rparr>]\<rparr>] \<and>
   getStat \<lparr>ts = 0, cpu_perc = None, load_average = None, mem_used_gb = 2,
      mem_total_gb = 0, disk_used_gb = 0, disk_total_gb = 1,
      network_ingress_bytes = None, network_egress_bytes = None\<rparr> Memory \<noteq> NaN"
  by (simp add: seriesData_def getStat_def)

section \<open>Shape of the series\<close>

text \<open>
  Claim C5. For every non-empty record sequence, Load Average gives exactly three series,
  labelled "1m", "5m" and "15m" in that order, whose values are the \<^verbatim>\<open>one\<close>,
  \<^verbatim>\<open>five\<close> and \<^verbatim>\<open>fifteen\<close> fields of the load average of each record (0 when the
  record has none); every other kind gives exactly one series.
\<close>

theorem load_average_three_series:
  assumes "stats d \<noteq> []"
  shows "map s_label (seriesData conv LoadAverage (Some d)) = [''1m'', ''5m'', ''15m''] \<and>
         map (\<lambda>s. map dp_value (s_data s)) (seriesData conv LoadAverage (Some d)) =
           [map (\<lambda>s. case load_average s of None \<Rightarrow> Fin 0 | Some la \<Rightarrow> Fin (one la)) (rev (stats d)),
            map (\<lambda>s. case load_average s of None \<Rightarrow> Fin 0 | Some la \<Rightarrow> Fin (five la)) (rev (stats d)),
            map (\<lambda>s. case load_average s of None \<Rightarrow> Fin 0 | Some la \<Rightarrow> Fin (fifteen la)) (rev (stats d))] \<and>
         (type \<noteq> LoadAverage \<longrightarrow> length (seriesData conv type (Some d)) = 1)"
  by (simp add: seriesData_def load_value_def Let_def comp_def rev_map)

theorem load_average_three_series_witness:
  "let d = \<lparr>stats =
        [\<lparr>ts = 1000, cpu_perc = Some 5, load_average = Some \<lparr>one = 3, five = 2, fifteen = 1\<rparr>,
          mem_used_gb = 2, mem_total_gb = 8, disk_used_gb = 1, disk_total_gb = 4,
          network_ingress_bytes = None, network_egress_bytes = None\<rparr>,
         \<lparr>ts = 0, cpu_perc = Some 7, load_average = None,
          mem_used_gb = 2, mem_total_gb = 8, disk_used_gb = 1, disk_total_gb = 4,
          network_ingress_bytes = None, network_egress_bytes = None\<rparr>]\<rparr>
   in stats d \<noteq> [] \<and> Cpu \<noteq> LoadAverage \<and>
      map s_label (seriesData id LoadAverage (Some d)) = [''1m'', ''5m'', ''15m''] \<and>
      map (map dp_value \<circ> s_data) (seriesData id LoadAverage (Some d)) =
        [[Fin 0, Fin 3], [Fin 0, Fin 2], [Fin 0, Fin 1]] \<and>
      length (seriesData id Cpu (Some d)) = 1"
proof -
  have ne: "stats \<lparr>stats =
        [\<lparr>ts = 1000, cpu_perc = Some 5, load_average = Some \<lparr>one = 3, five = 2, fifteen = 1\<rparr>,
          mem_used_gb = 2, mem_total_gb = 8, disk_used_gb = 1, disk_total_gb = 4,
          network_ingress_bytes = None, network_egress_bytes = None\<rparr>,
         \<lparr>ts = 0, cpu_perc = Some 7, load_average = None,
          mem_used_gb = 2, mem_total_gb = 8, disk_used_gb = 1, disk_total_gb = 4,
          network_ingress_bytes = None, network_egress_bytes = None\<rparr>]\<rparr> \<noteq> []"
    by simp
  show ?thesis
    unfolding Let_def
    using load_average_three_series [OF ne, of id Cpu] by (simp add: comp_def)
qed

text \<open>
  Claim C6. For every record sequence and every kind, each series has exactly one point per
  input record, none filtered or dropped, and point \<open>i\<close> carries the (converted) timestamp
  of record \<open>i\<close> of the reversed sequence, so the points keep that order.
\<close>

theorem one_point_per_record:
  "seriesData conv type (Some d) \<noteq> [] \<and>
   (\<forall>s \<in> set (seriesData conv type (Some d)).
      length (s_data s) = length (stats d) \<and>
      map dp_date (s_data s) = map (\<lambda>r. conv (ts r)) (rev (stats d)))"
  by (simp add: seriesData_def Let_def length_rate dates_rate comp_def)

theorem one_point_per_record_witness:
  "let d = \<lparr>stats =
        [\<lparr>ts = 1000, cpu_perc = Some 5, load_average = Some \<lparr>one = 3, five = 2, fifteen = 1\<rparr>,
          mem_used_gb = 2, mem_total_gb = 8, disk_used_gb = 1, disk_total_gb = 4,
          network_ingress_bytes = None, network_egress_bytes = None\<rparr>,
         \<lparr>ts = 0, cpu_perc = Some 7, load_average = None,
          mem_used_gb = 2, mem_total_gb = 8, disk_used_gb = 1, disk_total_gb = 4,
          network_ingress_bytes = None, network_egress_bytes = None\<rparr>]\<rparr>
   in map (map dp_date \<circ> s_data) (seriesData id Cpu (Some d)) = [[0, 1000]] \<and>
      map (length \<circ> s_data) (seriesData id Cpu (Some d)) = [2] \<and>
      map (map dp_date \<circ> s_data) (seriesData id NetworkEgress (Some d)) = [[0, 1000]]"
  unfolding Let_def
  using one_point_per_record [of id Cpu "\<lparr>stats =
        [\<lparr>ts = 1000, cpu_perc = Some 5, load_average = Some \<lparr>one = 3, five = 2, fifteen = 1\<rparr>,
          mem_used_gb = 2, mem_total_gb = 8, disk_used_gb = 1, disk_total_gb = 4,
          network_ingress_bytes = None, network_egress_bytes = None\<rparr>,
         \<lparr>ts = 0, cpu_perc = Some 7, load_average = None,
          mem_used_gb = 2, mem_total_gb = 8, disk_used_gb = 1, disk_total_gb = 4,
          network_ingress_bytes = None, network_egress_bytes = None\<rparr>]\<rparr>"]
    one_point_per_record [of id NetworkEgress "\<lparr>stats =
        [\<lparr>ts = 1000, cpu_perc = Some 5, load_average = Some \<lparr>one = 3, five = 2, fifteen = 1\<rparr>,
          mem_used_gb = 2, mem_total_gb = 8, disk_used_gb = 1, disk_total_gb = 4,
          network_ingress_bytes = None, network_egress_bytes = None\<rparr>,
         \<lparr>ts = 0, cpu_perc = Some 7, load_average = None,
          mem_used_gb = 2, mem_total_gb = 8, disk_used_gb = 1, disk_total_gb = 4,
          network_ingress_bytes = None, network_egress_bytes = None\<rparr>]\<rparr>"]
  by (simp add: seriesData_def)

text \<open>
  Claim C9. The three Load Average series are parallel: they have the same length and, index
  by index, the same timestamps.
\<close>

theorem load_average_parallel:
  "\<exists>a b c. seriesData conv LoadAverage (Some d) = [a, b, c] \<and>
     length (s_data a) = length (s_data b) \<and> length (s_data b) = length (s_data c) \<and>
     map dp_date (s_data a) = map dp_date (s_data b) \<and>
     map dp_date (s_data b) = map dp_date (s_data c)"
  by (simp add: seriesData_def Let_def comp_def)

section \<open>Missing and empty input\<close>

text \<open>
  Claim C8, as the code has it. When the response (or its \<^verbatim>\<open>stats\<close>) is missing,
  \<^verbatim>\<open>seriesData\<close> is the empty list for every kind and nothing is drawn; no error is raised.
  For a record sequence that is present and empty, it is three series without points for
  Load Average and one series without points for every other kind, and the chart is drawn.
\<close>

theorem empty_input_series:
  "seriesData conv type None = [] \<and>
   StatChart conv type None isPending = None \<and>
   seriesData conv type (Some \<lparr>stats = []\<rparr>) =
     (if type = LoadAverage
      then [\<lparr>s_label = ''1m'', s_data = []\<rparr>, \<lparr>s_label = ''5m'', s_data = []\<rparr>,
            \<lparr>s_label = ''15m'', s_data = []\<rparr>]
      else [\<lparr>s_label = type_label type, s_data = []\<rparr>]) \<and>
   StatChart conv type (Some \<lparr>stats = []\<rparr>) False \<noteq> None"
  by (simp add: seriesData_def StatChart_def rate_def)

text \<open>
  Claim C8, as stated, says that an empty record sequence gives no series at all. For Cpu it
  gives one series, and for Load Average three.
\<close>

theorem empty_records_one_series:
  "seriesData id Cpu (Some \<lparr>stats = []\<rparr>) = [\<lparr>s_label = ''Cpu'', s_data = []\<rparr>] \<and>
   seriesData id Cpu (Some \<lparr>stats = []\<rparr>) \<noteq> [] \<and>
   length (seriesData id LoadAverage (Some \<lparr>stats = []\<rparr>)) = 3"
  by (simp add: seriesData_def)

end
